theory Spec2Isabelle
  imports Complex_Main
begin

section \<open>Data model\<close>

text \<open>
  The timeline engine of the repository lives in \<^verbatim>\<open>lib/generate_video.py\<close> (class
  \<^verbatim>\<open>VideoGenerator\<close>), the batch drivers in \<^verbatim>\<open>create_qna_tiktok.py\<close> and
  \<^verbatim>\<open>create_advice_tiktok.py\<close>, the text sanitiser in \<^verbatim>\<open>lib/generate_audio.py\<close>.

  Python floats (audio and video durations, offsets) are modelled as \<open>real\<close>: every
  statement below is about exact arithmetic, rounding of IEEE doubles is outside the
  model. Python ints are \<open>int\<close>. A Python \<^verbatim>\<open>str\<close> is a \<open>string\<close> whose characters
  stand for the code points of the same number: the model holds the texts and file names
  made of code points below 256, and no others.
\<close>

datatype exn = ValueError | IndexError | KeyError | IOError | UnicodeDecodeError | NameError

text \<open>
  One entry of \<^verbatim>\<open>texts_list\<close> or the \<^verbatim>\<open>title_info\<close> dict: the keys \<^verbatim>\<open>'text'\<close> and
  \<^verbatim>\<open>'audio_filepath'\<close>. The field \<open>audio_duration\<close> stands for
  \<^verbatim>\<open>AudioFileClip(audio_filepath).duration\<close>, which the code reads from the file.
\<close>

record text_info =
  info_text :: string
  audio_filepath :: string
  audio_duration :: real

text \<open>
  The label of a \<^verbatim>\<open>TextClip\<close>: either the result of \<^verbatim>\<open>process_text(text, n)\<close>
  (the text wrapped at \<open>n\<close> characters, kept symbolic: wrapping is cosmetic and takes no
  part in any timing decision), or a literal message.
\<close>

datatype label = Wrapped string int | Literal string

text \<open>
  A \<^verbatim>\<open>TextClip\<close> placed on the timeline. \<open>clip_duration\<close> is \<open>None\<close> for a clip on
  which \<^verbatim>\<open>set_duration\<close> was never called (it then lasts until the composite ends).
\<close>

record textclip =
  clip_label :: label
  fontsize :: nat
  pos_y :: nat
  clip_start :: real
  clip_duration :: "real option"
  clip_audio :: "string option"

text \<open>
  A video clip: the background file, the window cut from it by \<^verbatim>\<open>subclip\<close>, the text
  clips composited over it (nested \<^verbatim>\<open>CompositeVideoClip\<close>s all start at 0, so the
  layers are kept as one list in compositing order) and the clip's duration.
\<close>

record video =
  bg_source :: string
  bg_window :: "real \<times> real"
  overlays :: "textclip list"
  duration :: real

record VideoGenerator =
  vid_path :: string
  title_buffer :: real
  last_used_vid_filename :: string

text \<open>\<^verbatim>\<open>VideoGenerator.__init__\<close>; the marker file's name is hardcoded there. The default of
  \<^verbatim>\<open>title_buffer\<close> is \<open>0.8\<close>, and both scripts construct the generator with it.\<close>

definition VideoGenerator_init :: "string \<Rightarrow> real \<Rightarrow> VideoGenerator" where
  "VideoGenerator_init videos_path title_buf =
     \<lparr>vid_path = videos_path, title_buffer = title_buf, last_used_vid_filename = ''last_used.txt''\<rparr>"

section \<open>Segment planning: title, text blocks, ending message\<close>

text \<open>\<^verbatim>\<open>add_ending_message\<close>: the ending clip starts at \<open>lst_msg_timestamp\<close>, and the
  composite is cut at \<open>lst_msg_timestamp + end_msg_duration\<close>.\<close>

definition end_msg :: string where
  "end_msg = ''Like'' @ [CHR 0x0A] @ ''&'' @ [CHR 0x0A] @ ''Follow'' @ [CHR 0x0A] @ ''for more!''"

definition endmsg_textclip :: "real \<Rightarrow> textclip" where
  "endmsg_textclip lst_msg_timestamp =
     \<lparr>clip_label = Literal end_msg, fontsize = 150, pos_y = 500,
      clip_start = lst_msg_timestamp, clip_duration = None, clip_audio = None\<rparr>"

text \<open>The local variable \<^verbatim>\<open>end_msg_duration\<close> of \<^verbatim>\<open>add_ending_message\<close>: no clamp at zero.\<close>

definition end_msg_duration :: "video \<Rightarrow> real \<Rightarrow> real" where
  "end_msg_duration v lst_msg_timestamp =
     (let video_duration = duration v in min (video_duration - lst_msg_timestamp) 3)"

definition add_ending_message :: "video \<Rightarrow> real \<Rightarrow> video" where
  "add_ending_message v lst_msg_timestamp =
     v\<lparr>overlays := overlays v @ [endmsg_textclip lst_msg_timestamp],
       duration := lst_msg_timestamp + end_msg_duration v lst_msg_timestamp\<rparr>"

text \<open>\<^verbatim>\<open>write_title_to_video\<close>: returns the edited video and the title offset.\<close>

definition title_textclip :: "VideoGenerator \<Rightarrow> text_info \<Rightarrow> int \<Rightarrow> textclip" where
  "title_textclip self title_info char_count =
     \<lparr>clip_label = Wrapped (info_text title_info) char_count, fontsize = 70, pos_y = 300,
      clip_start = 0,
      clip_duration = Some (audio_duration title_info + title_buffer self),
      clip_audio = Some (audio_filepath title_info)\<rparr>"

definition write_title_to_video ::
  "VideoGenerator \<Rightarrow> video \<Rightarrow> text_info \<Rightarrow> int \<Rightarrow> video \<times> real" where
  "write_title_to_video self v title_info char_count =
     (let title_duration = audio_duration title_info
      in (v\<lparr>overlays := overlays v @ [title_textclip self title_info char_count],
             duration := duration v\<rparr>,
          title_duration + title_buffer self))"

text \<open>
  The loop of \<^verbatim>\<open>write_multi_text_to_video\<close>, with its two loop variables
  \<open>current_text_offset\<close> and \<open>text_clips\<close>. A text whose audio does not fit is passed
  over and the loop goes on to the next one: the body has no \<^verbatim>\<open>break\<close>.
\<close>

definition text_vidclip :: "text_info \<Rightarrow> int \<Rightarrow> real \<Rightarrow> textclip" where
  "text_vidclip text_dict char_count current_text_offset =
     \<lparr>clip_label = Wrapped (info_text text_dict) (char_count + 8), fontsize = 60, pos_y = 320,
      clip_start = current_text_offset,
      clip_duration = Some (audio_duration text_dict),
      clip_audio = Some (audio_filepath text_dict)\<rparr>"

fun text_loop ::
  "real \<Rightarrow> int \<Rightarrow> real \<Rightarrow> text_info list \<Rightarrow> real \<Rightarrow> textclip list \<Rightarrow> real \<times> textclip list" where
  "text_loop max_vid_length char_count time_offset [] current_text_offset text_clips =
     (current_text_offset, text_clips)"
| "text_loop max_vid_length char_count time_offset (text_dict # rest) current_text_offset text_clips =
     (let text_duration = audio_duration text_dict
      in if current_text_offset + text_duration \<le> max_vid_length
         then text_loop max_vid_length char_count time_offset rest
                (current_text_offset + (text_duration + time_offset))
                (text_clips @ [text_vidclip text_dict char_count current_text_offset])
         else text_loop max_vid_length char_count time_offset rest
                current_text_offset text_clips)"

definition write_multi_text_to_video ::
  "video \<Rightarrow> real \<Rightarrow> text_info list \<Rightarrow> real \<Rightarrow> int \<Rightarrow> real \<Rightarrow> video" where
  "write_multi_text_to_video v title_offset texts_list max_vid_length char_count time_offset =
     (case text_loop max_vid_length char_count time_offset texts_list title_offset [] of
        (current_text_offset, text_clips) \<Rightarrow>
          add_ending_message
            (v\<lparr>overlays := overlays v @ text_clips, duration := duration v\<rparr>)
            current_text_offset)"

section \<open>Strings, paths and the random source\<close>

text \<open>\<^verbatim>\<open>str.endswith\<close> and \<^verbatim>\<open>str.startswith\<close>.\<close>

definition endswith :: "string \<Rightarrow> string \<Rightarrow> bool" where
  "endswith s suf = (length suf \<le> length s \<and> drop (length s - length suf) s = suf)"

text \<open>
  \<^verbatim>\<open>str.strip()\<close>: leading and trailing whitespace is removed. The whitespace
  characters are those of \<^verbatim>\<open>str.isspace\<close>: below 256 these are the code points 9 to 13,
  28 to 32, 133 (next line) and 160 (no-break space). The others (U+1680, U+2000 to U+200A,
  U+2028, U+2029, U+202F, U+205F, U+3000) lie beyond the characters of the model.
\<close>

definition isspace :: "char \<Rightarrow> bool" where
  "isspace c =
     (let n = (of_char c :: nat)
      in (9 \<le> n \<and> n \<le> 13) \<or> (28 \<le> n \<and> n \<le> 32) \<or> n = 133 \<or> n = 160)"

definition py_strip :: "string \<Rightarrow> string" where
  "py_strip s = rev (dropWhile isspace (rev (dropWhile isspace s)))"

text \<open>
  A file opened for reading in text mode, as the marker file is: \<^verbatim>\<open>read()\<close> decodes
  the bytes, and raises \<^verbatim>\<open>UnicodeDecodeError\<close> when they are no text; in the decoded text
  every line ending (a carriage return followed by a line feed, or a carriage return alone)
  comes back as one line feed. Writing in text mode stores the text as it is (POSIX).
\<close>

datatype file_content = Text string | Undecodable

fun universal_newlines :: "string \<Rightarrow> string" where
  "universal_newlines [] = []"
| "universal_newlines [c] = (if c = CHR 0x0D then [CHR 0x0A] else [c])"
| "universal_newlines (c # d # cs) =
     (if c = CHR 0x0D
      then (if d = CHR 0x0A then CHR 0x0A # universal_newlines cs
            else CHR 0x0A # universal_newlines (d # cs))
      else c # universal_newlines (d # cs))"

definition read_text :: "file_content \<Rightarrow> exn + string" where
  "read_text content =
     (case content of Text s \<Rightarrow> Inr (universal_newlines s) | Undecodable \<Rightarrow> Inl UnicodeDecodeError)"

text \<open>\<^verbatim>\<open>os.path.join(a, b)\<close> (POSIX): an absolute \<open>b\<close> replaces \<open>a\<close>.\<close>

definition startswith :: "string \<Rightarrow> string \<Rightarrow> bool" where
  "startswith s pre = (take (length pre) s = pre)"

definition join :: "string \<Rightarrow> string \<Rightarrow> string" where
  "join a b =
     (if startswith b ''/'' then b
      else if a = [] \<or> endswith a ''/'' then a @ b
      else a @ ''/'' @ b)"

text \<open>
  The random module. A call draws one natural number \<open>r\<close> from the generator;
  \<^verbatim>\<open>_randbelow(n)\<close> is \<open>r mod n\<close>, so that every value below \<open>n\<close> is the result for
  some draw. \<^verbatim>\<open>choice\<close> raises \<^verbatim>\<open>IndexError\<close> on an empty sequence; \<^verbatim>\<open>randrange\<close>
  raises \<^verbatim>\<open>ValueError\<close> on a zero step and on an empty range.
\<close>

definition randbelow :: "int \<Rightarrow> nat \<Rightarrow> int" where
  "randbelow n r = int (r mod nat n)"

definition choice :: "'a list \<Rightarrow> nat \<Rightarrow> exn + 'a" where
  "choice seq r = (if seq = [] then Inl IndexError else Inr (seq ! (r mod length seq)))"

definition randrange :: "int \<Rightarrow> int \<Rightarrow> int \<Rightarrow> nat \<Rightarrow> exn + int" where
  "randrange istart istop istep r =
     (let width = istop - istart in
      if istep = 1 then
        (if width > 0 then Inr (istart + randbelow width r) else Inl ValueError)
      else if istep = 0 then Inl ValueError
      else
        (let n = (if istep > 0 then (width + istep - 1) div istep
                  else (width + istep + 1) div istep)
         in if n \<le> 0 then Inl ValueError else Inr (istart + istep * randbelow n r)))"

text \<open>\<^verbatim>\<open>int(x)\<close> on a float truncates towards zero.\<close>

definition py_int :: "real \<Rightarrow> int" where
  "py_int x = (if 0 \<le> x then \<lfloor>x\<rfloor> else \<lceil>x\<rceil>)"

section \<open>Background selection and cropping\<close>

text \<open>
  The part of the file system the generator touches: the names in the background
  folder (other than the marker file), the content of the marker file when it exists,
  the duration \<^verbatim>\<open>VideoFileClip(path).duration\<close> of the file at a path, and the videos
  written so far (path and content, in the order written).
\<close>

record world =
  dir_entries :: "string list"
  marker :: "file_content option"
  video_duration :: "string \<Rightarrow> real"
  written :: "(string \<times> video) list"

definition listdir :: "VideoGenerator \<Rightarrow> world \<Rightarrow> string list" where
  "listdir self w =
     dir_entries w @ (case marker w of None \<Rightarrow> [] | Some c \<Rightarrow> [last_used_vid_filename self])"

text \<open>
  \<^verbatim>\<open>pick_random_video\<close>. The \<^verbatim>\<open>except IOError\<close> branch is the case of no marker
  file; a marker file that cannot be decoded raises \<^verbatim>\<open>UnicodeDecodeError\<close>, which that
  clause does not catch. The marker is written only after \<^verbatim>\<open>choice\<close> has returned.
\<close>

definition pick_random_video :: "VideoGenerator \<Rightarrow> world \<Rightarrow> nat \<Rightarrow> (exn + string) \<times> world" where
  "pick_random_video self w r =
     (let video_files = filter (\<lambda>maybe_vid. endswith maybe_vid ''.mp4'') (listdir self w) in
      if video_files = [] then (Inl ValueError, w)
      else
        (case (case marker w of
                 Some content \<Rightarrow>
                   (case read_text content of
                      Inl e \<Rightarrow> Inl e
                    | Inr txt \<Rightarrow>
                        (let last_video_file_used = py_strip txt
                         in Inr (filter (\<lambda>vid. vid \<noteq> last_video_file_used) video_files)))
               | None \<Rightarrow> Inr video_files) of
           Inl e \<Rightarrow> (Inl e, w)
         | Inr video_files \<Rightarrow>
             (case choice video_files r of
                Inl e \<Rightarrow> (Inl e, w)
              | Inr chosen_video \<Rightarrow>
                  (Inr (join (vid_path self) chosen_video),
                   w\<lparr>marker := Some (Text chosen_video)\<rparr>))))"

text \<open>
  \<^verbatim>\<open>crop_video_to_tiktok_format\<close>: the start of the window is
  \<^verbatim>\<open>randrange(0, int(video.duration) - subclip_length, subclip_length)\<close>, the window
  is \<open>subclip_length\<close> long. The resize, the spatial crop and the volume change do not touch
  the timeline and are left out.
\<close>

definition crop_video_to_tiktok_format :: "world \<Rightarrow> string \<Rightarrow> int \<Rightarrow> nat \<Rightarrow> exn + video" where
  "crop_video_to_tiktok_format w video_filepath subclip_length r =
     (case randrange 0 (py_int (video_duration w video_filepath) - subclip_length) subclip_length r of
        Inl e \<Rightarrow> Inl e
      | Inr random_point \<Rightarrow>
          Inr \<lparr>bg_source = video_filepath,
               bg_window = (real_of_int random_point, real_of_int (random_point + subclip_length)),
               overlays = [],
               duration = real_of_int (random_point + subclip_length) - real_of_int random_point\<rparr>)"

section \<open>The two pipelines\<close>

text \<open>
  The audio-enriched submission dict: \<^verbatim>\<open>'title'\<close> is always there, \<^verbatim>\<open>'comments'\<close>
  only for a QnA submission and \<^verbatim>\<open>'postbody'\<close> only for an advice submission; reading
  an absent key raises \<^verbatim>\<open>KeyError\<close>.
\<close>

record submission =
  title :: text_info
  comments :: "text_info list option"
  postbody :: "text_info list option"

definition make_filename :: "string \<Rightarrow> string" where
  "make_filename kind = ''finalized_'' @ kind @ ''.mp4''"

text \<open>
  \<^verbatim>\<open>generate_video_from_qna_submission\<close> and \<^verbatim>\<open>generate_video_from_advice_submission\<close>.
  The two draws of the random source are \<open>fst rnd\<close> (for \<^verbatim>\<open>choice\<close>) and \<open>snd rnd\<close>
  (for \<^verbatim>\<open>randrange\<close>). The result is the exception that ended the call, if any, and
  the world it leaves.
\<close>

definition generate_video_from_qna_submission ::
  "VideoGenerator \<Rightarrow> world \<Rightarrow> submission \<Rightarrow> string \<Rightarrow> int \<Rightarrow> int \<Rightarrow> nat \<times> nat \<Rightarrow> exn option \<times> world" where
  "generate_video_from_qna_submission self w sub out_folder char_count max_vid_length rnd =
     (case pick_random_video self w (fst rnd) of
        (Inl e, w1) \<Rightarrow> (Some e, w1)
      | (Inr background_video, w1) \<Rightarrow>
          (case crop_video_to_tiktok_format w1 background_video max_vid_length (snd rnd) of
             Inl e \<Rightarrow> (Some e, w1)
           | Inr cropped_video \<Rightarrow>
               (case write_title_to_video self cropped_video (title sub) char_count of
                  (title_edited_vid, title_duration) \<Rightarrow>
                    (case comments sub of
                       None \<Rightarrow> (Some KeyError, w1)
                     | Some texts \<Rightarrow>
                         (let final_video =
                                write_multi_text_to_video title_edited_vid title_duration texts
                                  (real_of_int max_vid_length) char_count 0.5;
                              output_filepath = join out_folder (make_filename ''qna'')
                          in (None, w1\<lparr>written := written w1 @ [(output_filepath, final_video)]\<rparr>))))))"

definition generate_video_from_advice_submission ::
  "VideoGenerator \<Rightarrow> world \<Rightarrow> submission \<Rightarrow> string \<Rightarrow> int \<Rightarrow> int \<Rightarrow> nat \<times> nat \<Rightarrow> exn option \<times> world" where
  "generate_video_from_advice_submission self w sub out_folder char_count max_vid_length rnd =
     (case pick_random_video self w (fst rnd) of
        (Inl e, w1) \<Rightarrow> (Some e, w1)
      | (Inr background_video, w1) \<Rightarrow>
          (case crop_video_to_tiktok_format w1 background_video max_vid_length (snd rnd) of
             Inl e \<Rightarrow> (Some e, w1)
           | Inr cropped_video \<Rightarrow>
               (case write_title_to_video self cropped_video (title sub) char_count of
                  (title_edited_vid, title_duration) \<Rightarrow>
                    (case postbody sub of
                       None \<Rightarrow> (Some KeyError, w1)
                     | Some texts \<Rightarrow>
                         (let final_video =
                                write_multi_text_to_video title_edited_vid title_duration texts
                                  (real_of_int max_vid_length) char_count 0.1;
                              output_filepath = join out_folder (make_filename ''advice'')
                          in (None, w1\<lparr>written := written w1 @ [(output_filepath, final_video)]\<rparr>))))))"

section \<open>The batch drivers\<close>

text \<open>
  \<^verbatim>\<open>generate_qna_tiktok_video\<close> and \<^verbatim>\<open>generate_advice_tiktok_video\<close>. One
  \<^verbatim>\<open>try\<close> block holds the whole \<^verbatim>\<open>for\<close> loop, so the \<^verbatim>\<open>except\<close> clause is reached
  from inside the loop and the loop is not resumed.

  A post of the batch is given by what the audio generator (speech synthesis, an external
  service) does with it: it raises, or returns the audio-enriched submission.
  \<open>reddit_json\<close> is what opening and parsing the input file gives. \<open>folder_name i\<close> is the
  time-stamped name of the output folder of post \<open>i\<close>; \<open>rnd i\<close> are the random draws
  made while post \<open>i\<close> is processed. The printed lines are kept in order.
\<close>

type_synonym post = "exn + submission"

datatype line = Success nat | ExceptionReport exn

record args =
  background_folder :: string
  output_folder :: string
  char_count :: int
  max_vid_length :: int

fun qna_loop ::
  "args \<Rightarrow> VideoGenerator \<Rightarrow> (nat \<Rightarrow> string) \<Rightarrow> (nat \<Rightarrow> nat \<times> nat) \<Rightarrow> nat \<Rightarrow> post list \<Rightarrow>
     world \<Rightarrow> line list \<Rightarrow> exn option \<times> world \<times> line list" where
  "qna_loop a video_gen folder_name rnd i [] w out = (None, w, out)"
| "qna_loop a video_gen folder_name rnd i (qna_post # rest) w out =
     (let out_folder = join (output_folder a) (folder_name i) in
      case qna_post of
        Inl e \<Rightarrow> (Some e, w, out)
      | Inr audio_info \<Rightarrow>
          (case generate_video_from_qna_submission video_gen w audio_info out_folder
                  (char_count a) (max_vid_length a) (rnd i) of
             (Some e, w') \<Rightarrow> (Some e, w', out)
           | (None, w') \<Rightarrow>
               qna_loop a video_gen folder_name rnd (Suc i) rest w' (out @ [Success (i + 1)])))"

definition generate_qna_tiktok_video ::
  "args \<Rightarrow> (nat \<Rightarrow> string) \<Rightarrow> (nat \<Rightarrow> nat \<times> nat) \<Rightarrow> exn + post list \<Rightarrow> world \<Rightarrow> world \<times> line list" where
  "generate_qna_tiktok_video a folder_name rnd reddit_json w =
     (let video_gen = VideoGenerator_init (background_folder a) 0.8 in
      case reddit_json of
        Inl err \<Rightarrow> (w, [ExceptionReport err])
      | Inr qna_contents \<Rightarrow>
          (case qna_loop a video_gen folder_name rnd 0 qna_contents w [] of
             (Some err, w', out) \<Rightarrow> (w', out @ [ExceptionReport err])
           | (None, w', out) \<Rightarrow> (w', out)))"

fun advice_loop ::
  "args \<Rightarrow> VideoGenerator \<Rightarrow> (nat \<Rightarrow> string) \<Rightarrow> (nat \<Rightarrow> nat \<times> nat) \<Rightarrow> nat \<Rightarrow> post list \<Rightarrow>
     world \<Rightarrow> line list \<Rightarrow> exn option \<times> world \<times> line list" where
  "advice_loop a video_gen folder_name rnd i [] w out = (None, w, out)"
| "advice_loop a video_gen folder_name rnd i (advice_post # rest) w out =
     (let out_folder = join (output_folder a) (folder_name i) in
      case advice_post of
        Inl e \<Rightarrow> (Some e, w, out)
      | Inr audio_info \<Rightarrow>
          (case generate_video_from_advice_submission video_gen w audio_info out_folder
                  (char_count a) (max_vid_length a) (rnd i) of
             (Some e, w') \<Rightarrow> (Some e, w', out)
           | (None, w') \<Rightarrow>
               advice_loop a video_gen folder_name rnd (Suc i) rest w' (out @ [Success (i + 1)])))"

definition generate_advice_tiktok_video ::
  "args \<Rightarrow> (nat \<Rightarrow> string) \<Rightarrow> (nat \<Rightarrow> nat \<times> nat) \<Rightarrow> exn + post list \<Rightarrow> world \<Rightarrow> world \<times> line list" where
  "generate_advice_tiktok_video a folder_name rnd reddit_json w =
     (let video_gen = VideoGenerator_init (background_folder a) 0.8 in
      case reddit_json of
        Inl err \<Rightarrow> (w, [ExceptionReport err])
      | Inr advice_contents \<Rightarrow>
          (case advice_loop a video_gen folder_name rnd 0 advice_contents w [] of
             (Some err, w', out) \<Rightarrow> (w', out @ [ExceptionReport err])
           | (None, w', out) \<Rightarrow> (w', out)))"

section \<open>The text sanitiser of the audio generator\<close>

text \<open>
  \<^verbatim>\<open>re.sub('[\\*]{2,}', 'beep', s)\<close>: scanning from the left, every maximal run of two
  or more asterisks becomes \<open>beep\<close>; \<open>n\<close> counts the asterisks of the run being read.
\<close>

definition flush_run :: "nat \<Rightarrow> string" where
  "flush_run n = (if n = 0 then [] else if n = 1 then ''*'' else ''beep'')"

fun sub_star_runs :: "nat \<Rightarrow> string \<Rightarrow> string" where
  "sub_star_runs n [] = flush_run n"
| "sub_star_runs n (c # cs) =
     (if c = CHR ''*'' then sub_star_runs (Suc n) cs
      else flush_run n @ c # sub_star_runs 0 cs)"

text \<open>\<^verbatim>\<open>re.sub('[\\*]{1}', '', s)\<close>: every single asterisk is replaced by the empty string.\<close>

fun sub_single_star :: "string \<Rightarrow> string" where
  "sub_single_star [] = []"
| "sub_single_star (c # cs) = (if c = CHR ''*'' then sub_single_star cs else c # sub_single_star cs)"

text \<open>
  \<^verbatim>\<open>sanitize_sentence_for_gtts\<close>: \<open>beeped_sentence\<close> is computed and then not used; the
  value returned is computed from the argument.
\<close>

definition sanitize_sentence_for_gtts :: "string \<Rightarrow> string" where
  "sanitize_sentence_for_gtts censored_sentence =
     (let beeped_sentence = sub_star_runs 0 censored_sentence
      in sub_single_star censored_sentence)"

section \<open>Reading the plan off a video\<close>

text \<open>The time at which a clip with a duration of its own ends.\<close>

definition clip_end :: "textclip \<Rightarrow> real" where
  "clip_end c = clip_start c + the (clip_duration c)"

text \<open>What a clip contributes to the timeline: its start, its duration, its audio.\<close>

definition timing :: "textclip \<Rightarrow> real \<times> real option \<times> string option" where
  "timing c = (clip_start c, clip_duration c, clip_audio c)"

section \<open>Reading the candidates off a folder\<close>

text \<open>
  The two lists \<^verbatim>\<open>pick_random_video\<close> builds: the \<^verbatim>\<open>.mp4\<close> names of the folder, and what
  is left of them once the name in the marker file is filtered out.
\<close>

definition eligible :: "world \<Rightarrow> string list" where
  "eligible w = filter (\<lambda>f. endswith f ''.mp4'') (dir_entries w)"

definition candidates :: "world \<Rightarrow> string list" where
  "candidates w =
     (case marker w of
        None \<Rightarrow> eligible w
      | Some content \<Rightarrow>
          (case read_text content of
             Inl e \<Rightarrow> []
           | Inr txt \<Rightarrow> filter (\<lambda>vid. vid \<noteq> py_strip txt) (eligible w)))"

text \<open>A name as it comes back from the marker file after it was written there.\<close>

definition read_back :: "string \<Rightarrow> string" where
  "read_back name = py_strip (universal_newlines name)"

section \<open>Reading the output files off a run\<close>

text \<open>The path of the video a run writes for post \<open>i\<close>.\<close>

definition out_path :: "args \<Rightarrow> (nat \<Rightarrow> string) \<Rightarrow> string \<Rightarrow> nat \<Rightarrow> string" where
  "out_path a folder_name kind i =
     join (join (output_folder a) (folder_name i)) (make_filename kind)"



section \<open>Properties of segment planning\<close>

lemma text_loop_cursor:
  "text_loop mx cc gap ts cur acc = (cur', clips) \<Longrightarrow>
   cur = (if acc = [] then off else clip_end (last acc) + gap) \<Longrightarrow>
   cur' = (if clips = [] then off else clip_end (last clips) + gap)"
proof (induction ts arbitrary: cur acc)
  case Nil
  then show ?case by auto
next
  case (Cons t ts)
  show ?case
  proof (cases "cur + audio_duration t \<le> mx")
    case True
    with Cons.prems(1) have
      "text_loop mx cc gap ts (cur + (audio_duration t + gap)) (acc @ [text_vidclip t cc cur]) = (cur', clips)"
      by (simp add: Let_def)
    then show ?thesis
      by (rule Cons.IH) (simp add: clip_end_def text_vidclip_def)
  next
    case False
    with Cons.prems(1) have "text_loop mx cc gap ts cur acc = (cur', clips)"
      by (simp add: Let_def)
    then show ?thesis using Cons.prems(2) by (rule Cons.IH)
  qed
qed

lemma write_multi_text_to_video_eq:
  "text_loop mx cc gap ts off [] = (cur, clips) \<Longrightarrow>
   write_multi_text_to_video v off ts mx cc gap =
     v\<lparr>overlays := overlays v @ clips @ [endmsg_textclip cur],
       duration := cur + min (duration v - cur) 3\<rparr>"
  by (simp add: write_multi_text_to_video_def add_ending_message_def end_msg_duration_def Let_def)

text \<open>
  Claim C7. The worked example: title audio of 5 seconds with the lead-in 0.8, three
  texts of 10 seconds each, a budget of 30 seconds and a gap of 0.5, over a background of
  30 seconds. The title clip occupies \<open>[0, 5.8)\<close> and the title offset is 5.8; text 1 is
  placed at 5.8 for 10 seconds, text 2 at 16.3 for 10 seconds (so the offset went to 16.3
  and then to 26.8); text 3 is not placed, since \<open>26.8 + 10 = 36.8 > 30\<close>; the ending clip
  starts at 26.8 and the video is cut at 29.8, that is after \<open>min (30 - 26.8) 3 = 3\<close>
  seconds of it.
\<close>

theorem worked_example_plan:
  "(case write_title_to_video (VideoGenerator_init path 0.8) (v0\<lparr>overlays := [], duration := 30\<rparr>)
           \<lparr>info_text = t0, audio_filepath = a0, audio_duration = 5\<rparr> cc of
      (title_edited_vid, title_offset) \<Rightarrow>
        let final = write_multi_text_to_video title_edited_vid title_offset
              [\<lparr>info_text = t1, audio_filepath = a1, audio_duration = 10\<rparr>,
               \<lparr>info_text = t2, audio_filepath = a2, audio_duration = 10\<rparr>,
               \<lparr>info_text = t3, audio_filepath = a3, audio_duration = 10\<rparr>] 30 cc 0.5
        in title_offset = 5.8 \<and>
           map timing (overlays final) =
             [(0, Some 5.8, Some a0), (5.8, Some 10, Some a1), (16.3, Some 10, Some a2),
              (26.8, None, None)] \<and>
           last (overlays final) = endmsg_textclip 26.8 \<and>
           \<not> (26.8 + 10 \<le> (30::real)) \<and>
           duration final = 29.8 \<and>
           duration final - 26.8 = min (30 - 26.8) 3 \<and>
           duration final - 26.8 = 3)"
  by (simp add: write_title_to_video_def write_multi_text_to_video_def add_ending_message_def
        end_msg_duration_def VideoGenerator_init_def title_textclip_def text_vidclip_def endmsg_textclip_def
        timing_def Let_def)

text \<open>
  Claim C1 (the code departs from it). The claim is that once a text fails the check
  \<open>current_text_offset + text_duration \<le> max_vid_length\<close>, every later text is
  skipped. The loop has no \<^verbatim>\<open>break\<close>: with the texts of the worked example followed by a
  fourth text of 2 seconds, the third text fails the check (\<open>26.8 + 10 > 30\<close>) and the fourth,
  which comes after it, is placed at 26.8; the ending clip then starts at 29.3.
\<close>

theorem later_shorter_text_admitted:
  "(let final = write_multi_text_to_video (v0\<lparr>overlays := [], duration := 30\<rparr>) 5.8
          [\<lparr>info_text = t1, audio_filepath = a1, audio_duration = 10\<rparr>,
           \<lparr>info_text = t2, audio_filepath = a2, audio_duration = 10\<rparr>,
           \<lparr>info_text = t3, audio_filepath = a3, audio_duration = 10\<rparr>,
           \<lparr>info_text = t4, audio_filepath = a4, audio_duration = 2\<rparr>] 30 cc 0.5
    in \<not> (26.8 + 10 \<le> (30::real)) \<and>
       map timing (overlays final) =
         [(5.8, Some 10, Some a1), (16.3, Some 10, Some a2), (26.8, Some 2, Some a4),
          (29.3, None, None)])"
  by (simp add: write_multi_text_to_video_def add_ending_message_def end_msg_duration_def
        text_vidclip_def endmsg_textclip_def timing_def Let_def)

text \<open>
  Claim C3, as stated, fails: the duration of the ending clip can be negative. With a title
  offset of 5.8, one text of 24 seconds, a budget of 30 and a gap of 0.5, the text is placed
  (\<open>5.8 + 24 \<le> 30\<close>), the offset becomes 30.3, and \<open>end_msg_duration\<close> is
  \<open>min (30 - 30.3) 3 = - 0.3\<close>.
\<close>

theorem closing_duration_negative:
  "(let v = \<lparr>bg_source = ''videos/bg.mp4'', bg_window = (0, 30), overlays = [], duration = 30\<rparr>;
        final = write_multi_text_to_video v 5.8
          [\<lparr>info_text = ''answer'', audio_filepath = ''comment_0.mp3'', audio_duration = 24\<rparr>]
          30 30 0.5
    in map timing (overlays final) = [(5.8, Some 24, Some ''comment_0.mp3''), (30.3, None, None)] \<and>
       end_msg_duration v 30.3 = - 0.3 \<and>
       end_msg_duration v 30.3 < 0 \<and>
       duration final = 30)"
  by (simp add: write_multi_text_to_video_def add_ending_message_def end_msg_duration_def
        text_vidclip_def endmsg_textclip_def timing_def Let_def)

text \<open>
  Claim C3, amended. For a video whose duration is the budget \<open>mx\<close> (as the cropped
  background is): the ending clip is always added, as the last layer; it starts at the
  offset the loop ends with, which is the title offset when no text was placed and
  otherwise the end of the last placed text plus the gap; the video is cut
  \<open>end_msg_duration\<close> after that start, where \<open>end_msg_duration = min (mx - start) 3\<close>;
  this is at most 3, and it is negative exactly when the start lies beyond the budget
  (nothing clamps it at zero).
\<close>

theorem closing_card:
  "(case text_loop mx cc gap texts off [] of
      (cur, clips) \<Rightarrow>
        let v = v0\<lparr>duration := mx\<rparr>;
            final = write_multi_text_to_video v off texts mx cc gap
        in overlays final = overlays v0 @ clips @ [endmsg_textclip cur] \<and>
           clip_start (last (overlays final)) = cur \<and>
           cur = (if clips = [] then off else clip_end (last clips) + gap) \<and>
           duration final = cur + end_msg_duration v cur \<and>
           end_msg_duration v cur = min (mx - cur) 3 \<and>
           end_msg_duration v cur \<le> 3 \<and>
           (end_msg_duration v cur < 0) = (mx < cur))"
proof (cases "text_loop mx cc gap texts off []")
  case (Pair cur clips)
  have cursor: "cur = (if clips = [] then off else clip_end (last clips) + gap)"
    using text_loop_cursor [OF Pair, of off] by simp
  have final: "write_multi_text_to_video (v0\<lparr>duration := mx\<rparr>) off texts mx cc gap =
      v0\<lparr>overlays := overlays v0 @ clips @ [endmsg_textclip cur],
         duration := cur + min (mx - cur) 3\<rparr>"
    using write_multi_text_to_video_eq [OF Pair, of "v0\<lparr>duration := mx\<rparr>"] by simp
  have dur: "end_msg_duration (v0\<lparr>duration := mx\<rparr>) cur = min (mx - cur) 3"
    by (simp add: end_msg_duration_def)
  have neg: "(min (mx - cur) 3 < 0) = (mx < cur)" by auto
  have rest: "overlays (v0\<lparr>overlays := overlays v0 @ clips @ [endmsg_textclip cur],
         duration := cur + min (mx - cur) 3\<rparr>) = overlays v0 @ clips @ [endmsg_textclip cur] \<and>
      clip_start (endmsg_textclip cur) = cur"
    by (simp add: endmsg_textclip_def)
  show ?thesis
    unfolding Pair prod.case Let_def final dur
    using cursor rest neg by (intro conjI) simp_all
qed

lemma crop_duration:
  "crop_video_to_tiktok_format w path n r = Inr v \<Longrightarrow>
     duration v = real_of_int n \<and> overlays v = [] \<and> bg_source v = path"
  by (auto simp: crop_video_to_tiktok_format_def split: sum.splits)

text \<open>
  What a pipeline writes when it ends without an exception: the title and the texts laid
  over the background it picked and cropped to \<open>mx\<close> seconds, with the budget \<open>mx\<close>
  and the pipeline's gap.
\<close>

lemma qna_pipeline_composition:
  assumes "generate_video_from_qna_submission g w sub folder cc mx rnd = (None, w')"
  shows "\<exists>path w1 cropped texts.
           pick_random_video g w (fst rnd) = (Inr path, w1) \<and>
           crop_video_to_tiktok_format w1 path mx (snd rnd) = Inr cropped \<and>
           comments sub = Some texts \<and>
           w' = w1\<lparr>written := written w1 @
                  [(join folder (make_filename ''qna''),
                    write_multi_text_to_video
                      (fst (write_title_to_video g cropped (title sub) cc))
                      (snd (write_title_to_video g cropped (title sub) cc))
                      texts (real_of_int mx) cc 0.5)]\<rparr>"
proof -
  obtain x w1 where p: "pick_random_video g w (fst rnd) = (x, w1)"
    by (cases "pick_random_video g w (fst rnd)")
  show ?thesis
    using assms
    by (auto simp: generate_video_from_qna_submission_def p Let_def
          split: sum.splits option.splits prod.splits)
qed

lemma advice_pipeline_composition:
  assumes "generate_video_from_advice_submission g w sub folder cc mx rnd = (None, w')"
  shows "\<exists>path w1 cropped texts.
           pick_random_video g w (fst rnd) = (Inr path, w1) \<and>
           crop_video_to_tiktok_format w1 path mx (snd rnd) = Inr cropped \<and>
           postbody sub = Some texts \<and>
           w' = w1\<lparr>written := written w1 @
                  [(join folder (make_filename ''advice''),
                    write_multi_text_to_video
                      (fst (write_title_to_video g cropped (title sub) cc))
                      (snd (write_title_to_video g cropped (title sub) cc))
                      texts (real_of_int mx) cc 0.1)]\<rparr>"
proof -
  obtain x w1 where p: "pick_random_video g w (fst rnd) = (x, w1)"
    by (cases "pick_random_video g w (fst rnd)")
  show ?thesis
    using assms
    by (auto simp: generate_video_from_advice_submission_def p Let_def
          split: sum.splits option.splits prod.splits)
qed

text \<open>
  Claim C8. Both pipelines crop the background to \<open>max_len\<close> seconds, write the title and
  then the texts with the same budget. For every timeline assembled this way the total
  duration is \<open>min max_len (cur + 3)\<close>, where \<open>cur\<close> is the offset after the title and
  the placed texts: it never exceeds \<open>max_len\<close>, it is exactly \<open>max_len\<close> when the
  content and the 3 seconds of the ending clip reach it, and it is less only when they fall
  short, in which case it is \<open>cur + 3\<close> and nothing is padded after the ending clip.
\<close>

theorem total_duration:
  assumes "crop_video_to_tiktok_format w path max_len r = Inr cropped"
  shows "(case write_title_to_video self cropped title_info cc of
      (title_edited_vid, title_offset) \<Rightarrow>
        (case text_loop (real_of_int max_len) cc gap texts title_offset [] of
           (cur, clips) \<Rightarrow>
             let final = write_multi_text_to_video title_edited_vid title_offset texts
                           (real_of_int max_len) cc gap
             in duration final \<le> real_of_int max_len \<and>
                duration final = min (real_of_int max_len) (cur + 3) \<and>
                (duration final = real_of_int max_len) = (real_of_int max_len \<le> cur + 3) \<and>
                (duration final < real_of_int max_len) = (cur + 3 < real_of_int max_len)))"
proof -
  obtain tv off where t: "write_title_to_video self cropped title_info cc = (tv, off)"
    by (cases "write_title_to_video self cropped title_info cc")
  obtain cur clips where l: "text_loop (real_of_int max_len) cc gap texts off [] = (cur, clips)"
    by (cases "text_loop (real_of_int max_len) cc gap texts off []")
  have "duration tv = real_of_int max_len"
    using t crop_duration [OF assms] by (auto simp: write_title_to_video_def Let_def)
  then have "duration (write_multi_text_to_video tv off texts (real_of_int max_len) cc gap) =
      cur + min (real_of_int max_len - cur) 3"
    using write_multi_text_to_video_eq [OF l, of tv] by simp
  then show ?thesis
    by (auto simp: t l Let_def)
qed

theorem total_duration_witness:
  "(let w = \<lparr>dir_entries = [''bg.mp4''], marker = None, video_duration = (\<lambda>p. 100), written = []\<rparr>;
        cropped = \<lparr>bg_source = ''videos/bg.mp4'', bg_window = (0, 30), overlays = [], duration = 30\<rparr>;
        texts = [\<lparr>info_text = ''one'', audio_filepath = ''comment_0.mp3'', audio_duration = 10\<rparr>,
                 \<lparr>info_text = ''two'', audio_filepath = ''comment_1.mp3'', audio_duration = 10\<rparr>];
        title_info = \<lparr>info_text = ''question'', audio_filepath = ''title.mp3'', audio_duration = 5\<rparr>;
        self = VideoGenerator_init ''videos'' 0.8
    in crop_video_to_tiktok_format w ''videos/bg.mp4'' 30 0 = Inr cropped \<and>
       (case write_title_to_video self cropped title_info 30 of
          (title_edited_vid, title_offset) \<Rightarrow>
            fst (text_loop 30 30 0.5 texts title_offset []) = 26.8 \<and>
            duration (write_multi_text_to_video title_edited_vid title_offset texts 30 30 0.5) = 29.8 \<and>
            duration (write_multi_text_to_video title_edited_vid title_offset texts 30 30 0.5) \<le> 30))"
proof -
  have h: "crop_video_to_tiktok_format
      \<lparr>dir_entries = [''bg.mp4''], marker = None, video_duration = (\<lambda>p. 100), written = []\<rparr>
      ''videos/bg.mp4'' 30 0 =
      Inr \<lparr>bg_source = ''videos/bg.mp4'', bg_window = (0, 30), overlays = [], duration = 30\<rparr>"
    by (simp add: crop_video_to_tiktok_format_def randrange_def randbelow_def py_int_def)
  show ?thesis
    using h total_duration [OF h, where self = "VideoGenerator_init ''videos'' 0.8"
        and title_info = "\<lparr>info_text = ''question'', audio_filepath = ''title.mp3'', audio_duration = 5\<rparr>"
        and cc = 30 and gap = "0.5"
        and texts = "[\<lparr>info_text = ''one'', audio_filepath = ''comment_0.mp3'', audio_duration = 10\<rparr>,
          \<lparr>info_text = ''two'', audio_filepath = ''comment_1.mp3'', audio_duration = 10\<rparr>]"]
    by (simp add: write_title_to_video_def VideoGenerator_init_def Let_def)
qed

text \<open>
  Claim C9. The plan (title offset, the clips laid over the background with their starts
  and durations, the total duration) is a function of the generator, the title, the texts,
  the budget, the wrap width and the gap: two runs that differ in the background folder,
  the file chosen and the random draws made for the window give the same plan.
\<close>

theorem plan_deterministic:
  assumes "crop_video_to_tiktok_format w1 path1 max_len r1 = Inr cropped1"
      and "crop_video_to_tiktok_format w2 path2 max_len r2 = Inr cropped2"
  shows "(case (write_title_to_video self cropped1 title_info cc,
               write_title_to_video self cropped2 title_info cc) of
      ((tv1, off1), (tv2, off2)) \<Rightarrow>
        let final1 = write_multi_text_to_video tv1 off1 texts (real_of_int max_len) cc gap;
            final2 = write_multi_text_to_video tv2 off2 texts (real_of_int max_len) cc gap
        in off1 = off2 \<and> overlays final1 = overlays final2 \<and> duration final1 = duration final2)"
  using crop_duration [OF assms(1)] crop_duration [OF assms(2)]
  by (simp add: write_title_to_video_def write_multi_text_to_video_def add_ending_message_def
        end_msg_duration_def Let_def split: prod.splits)


theorem plan_deterministic_witness:
  "(let w1 = \<lparr>dir_entries = [''bg.mp4''], marker = None, video_duration = (\<lambda>p. 100), written = []\<rparr>;
        w2 = \<lparr>dir_entries = [''other.mp4''], marker = Some (Text ''bg.mp4''), video_duration = (\<lambda>p. 200),
              written = []\<rparr>;
        cropped1 = \<lparr>bg_source = ''videos/bg.mp4'', bg_window = (30, 60), overlays = [], duration = 30\<rparr>;
        cropped2 = \<lparr>bg_source = ''videos/other.mp4'', bg_window = (120, 150), overlays = [], duration = 30\<rparr>;
        texts = [\<lparr>info_text = ''one'', audio_filepath = ''comment_0.mp3'', audio_duration = 10\<rparr>,
                 \<lparr>info_text = ''two'', audio_filepath = ''comment_1.mp3'', audio_duration = 10\<rparr>];
        title_info = \<lparr>info_text = ''question'', audio_filepath = ''title.mp3'', audio_duration = 5\<rparr>;
        self = VideoGenerator_init ''videos'' 0.8
    in crop_video_to_tiktok_format w1 ''videos/bg.mp4'' 30 1 = Inr cropped1 \<and>
       crop_video_to_tiktok_format w2 ''videos/other.mp4'' 30 4 = Inr cropped2 \<and>
       overlays (write_multi_text_to_video (fst (write_title_to_video self cropped1 title_info 30))
                   (snd (write_title_to_video self cropped1 title_info 30)) texts 30 30 0.5) =
       overlays (write_multi_text_to_video (fst (write_title_to_video self cropped2 title_info 30))
                   (snd (write_title_to_video self cropped2 title_info 30)) texts 30 30 0.5) \<and>
       duration (write_multi_text_to_video (fst (write_title_to_video self cropped1 title_info 30))
                   (snd (write_title_to_video self cropped1 title_info 30)) texts 30 30 0.5) =
       duration (write_multi_text_to_video (fst (write_title_to_video self cropped2 title_info 30))
                   (snd (write_title_to_video self cropped2 title_info 30)) texts 30 30 0.5))"
proof -
  have h1: "crop_video_to_tiktok_format
      \<lparr>dir_entries = [''bg.mp4''], marker = None, video_duration = (\<lambda>p. 100), written = []\<rparr>
      ''videos/bg.mp4'' 30 1 =
      Inr \<lparr>bg_source = ''videos/bg.mp4'', bg_window = (30, 60), overlays = [], duration = 30\<rparr>"
    by (simp add: crop_video_to_tiktok_format_def randrange_def randbelow_def py_int_def)
  have h2: "crop_video_to_tiktok_format
      \<lparr>dir_entries = [''other.mp4''], marker = Some (Text ''bg.mp4''), video_duration = (\<lambda>p. 200),
        written = []\<rparr>
      ''videos/other.mp4'' 30 4 =
      Inr \<lparr>bg_source = ''videos/other.mp4'', bg_window = (120, 150), overlays = [], duration = 30\<rparr>"
    by (simp add: crop_video_to_tiktok_format_def randrange_def randbelow_def py_int_def)
  show ?thesis
    using h1 h2 plan_deterministic [OF h1 h2, where self = "VideoGenerator_init ''videos'' 0.8"
        and title_info = "\<lparr>info_text = ''question'', audio_filepath = ''title.mp3'', audio_duration = 5\<rparr>"
        and cc = 30 and gap = "0.5"
        and texts = "[\<lparr>info_text = ''one'', audio_filepath = ''comment_0.mp3'', audio_duration = 10\<rparr>,
          \<lparr>info_text = ''two'', audio_filepath = ''comment_1.mp3'', audio_duration = 10\<rparr>]"]
    by (simp add: Let_def split: prod.splits)
qed

section \<open>Properties of the text sanitiser\<close>

lemma sub_single_star_filter: "sub_single_star s = filter (\<lambda>c. c \<noteq> CHR ''*'') s"
  by (induction s) simp_all

text \<open>
  Claim C10. \<^verbatim>\<open>sanitize_sentence_for_gtts\<close> returns its argument with every asterisk
  removed and every other character kept, in order. A run of two or more asterisks
  disappears whole: the sentence around it is sanitised as if the run were not there, and no
  \<open>beep\<close> is put in its place, although the substitution that would put it there is
  computed (second example line) and dropped.
\<close>

theorem sanitize_removes_every_star:
  "sanitize_sentence_for_gtts s = filter (\<lambda>c. c \<noteq> CHR ''*'') s \<and>
   sanitize_sentence_for_gtts (xs @ replicate (n + 2) (CHR ''*'') @ ys) =
     sanitize_sentence_for_gtts xs @ sanitize_sentence_for_gtts ys \<and>
   sub_star_runs 0 ''what the **** is *this*'' = ''what the beep is *this*'' \<and>
   sanitize_sentence_for_gtts ''what the **** is *this*'' = ''what the  is this''"
proof -
  have eq: "\<And>t. sanitize_sentence_for_gtts t = filter (\<lambda>c. c \<noteq> CHR ''*'') t"
    by (simp add: sanitize_sentence_for_gtts_def sub_single_star_filter)
  have run: "filter (\<lambda>c. c \<noteq> CHR ''*'') (replicate (n + 2) (CHR ''*'')) = []"
    by simp
  have beep: "sub_star_runs 0 ''what the **** is *this*'' = ''what the beep is *this*''"
    by (simp add: flush_run_def)
  show ?thesis
    unfolding eq using beep by (simp del: replicate.simps replicate_Suc add: run)
qed

section \<open>Properties of background selection\<close>

lemma marker_file_not_video: "\<not> endswith ''last_used.txt'' ''.mp4''"
  by (simp add: endswith_def)

lemma pick_random_video_eq:
  "pick_random_video (VideoGenerator_init p b) w r =
     (if eligible w = [] then (Inl ValueError, w)
      else if marker w = Some Undecodable then (Inl UnicodeDecodeError, w)
      else if candidates w = [] then (Inl IndexError, w)
      else (Inr (join p (candidates w ! (r mod length (candidates w)))),
            w\<lparr>marker := Some (Text (candidates w ! (r mod length (candidates w))))\<rparr>))"
proof (cases "marker w")
  case None
  then show ?thesis
    by (simp add: pick_random_video_def listdir_def VideoGenerator_init_def eligible_def
          candidates_def choice_def Let_def)
next
  case (Some content)
  then show ?thesis
    by (cases content)
       (simp_all add: pick_random_video_def listdir_def VideoGenerator_init_def eligible_def
          candidates_def read_text_def choice_def marker_file_not_video Let_def)
qed

lemma candidates_subset: "set (candidates w) \<subseteq> set (eligible w)"
  by (auto simp: candidates_def split: option.splits sum.splits)

lemma eligible_subset: "set (eligible w) \<subseteq> set (dir_entries w)"
  by (auto simp: eligible_def)

lemma single_background_cases:
  assumes "eligible w = [f]" "marker w \<noteq> Some Undecodable"
  shows "pick_random_video (VideoGenerator_init p b) w r =
     (if f \<in> set (candidates w)
      then (Inr (join p f), w\<lparr>marker := Some (Text f)\<rparr>)
      else (Inl IndexError, w))"
proof -
  have "candidates w = [] \<or> candidates w = [f]"
    using assms(1) by (auto simp: candidates_def split: option.splits sum.splits)
  then show ?thesis
    using assms by (auto simp: pick_random_video_eq)
qed

text \<open>
  Claim C4 (the code departs from it). The claim is that a folder with exactly one
  \<^verbatim>\<open>.mp4\<close> file always yields that file, whatever the marker holds. The code filters
  the marker's name out of the list however long the list is, and \<^verbatim>\<open>choice\<close> then runs
  on the empty list: in a folder holding only \<^verbatim>\<open>a.mp4\<close>, the first call returns it and
  writes the marker, and the next call raises \<^verbatim>\<open>IndexError\<close>.
\<close>

theorem single_background_stuck:
  "(let self = VideoGenerator_init ''videos'' 0.8;
        w = \<lparr>dir_entries = [''a.mp4''], marker = None, video_duration = d, written = ws\<rparr>
    in pick_random_video self w r1 = (Inr ''videos/a.mp4'', w\<lparr>marker := Some (Text ''a.mp4'')\<rparr>) \<and>
       pick_random_video self (w\<lparr>marker := Some (Text ''a.mp4'')\<rparr>) r2 =
         (Inl IndexError, w\<lparr>marker := Some (Text ''a.mp4'')\<rparr>))"
  by (simp add: pick_random_video_eq candidates_def eligible_def read_text_def endswith_def
        startswith_def join_def py_strip_def isspace_def Let_def)

text \<open>
  Claim C6 (the code departs from it). The claim is that with at least two eligible files
  and the marker persisted between the calls, two consecutive calls never return the same
  file. The code compares the names with what it reads back from the marker file, and it
  strips what it reads: in a folder holding \<^verbatim>\<open>' a.mp4'\<close> (with a leading blank) and
  \<^verbatim>\<open>'b.mp4'\<close>, the first call returns \<^verbatim>\<open>' a.mp4'\<close> and writes that name to the marker
  file unchanged; the second call reads \<^verbatim>\<open>'a.mp4'\<close>, filters nothing out, and returns
  \<^verbatim>\<open>' a.mp4'\<close> again.
\<close>

theorem same_file_twice_in_a_row:
  "(let self = VideoGenerator_init ''videos'' 0.8;
        w = \<lparr>dir_entries = ['' a.mp4'', ''b.mp4''], marker = None, video_duration = d, written = ws\<rparr>
    in eligible w = ['' a.mp4'', ''b.mp4''] \<and>
       pick_random_video self w 0 = (Inr ''videos/ a.mp4'', w\<lparr>marker := Some (Text '' a.mp4'')\<rparr>) \<and>
       read_back '' a.mp4'' = ''a.mp4'' \<and>
       pick_random_video self (w\<lparr>marker := Some (Text '' a.mp4'')\<rparr>) 0 =
         (Inr ''videos/ a.mp4'', w\<lparr>marker := Some (Text '' a.mp4'')\<rparr>))"
  by (simp add: pick_random_video_eq candidates_def eligible_def read_text_def read_back_def
        endswith_def startswith_def join_def py_strip_def isspace_def Let_def)

text \<open>
  The defect is confined to names that the marker file does not give back as they were
  written. Where every name of the folder is read back unchanged (no whitespace at either
  end, no carriage return inside) and the marker file holds text, two different eligible
  names are enough: both calls return, and the second file differs from the first, for all
  random draws and whatever the marker held before. The names are names, not paths (none
  starts with \<^verbatim>\<open>/\<close>), as \<^verbatim>\<open>listdir\<close> returns them.
\<close>

lemma join_inj:
  "\<not> startswith a ''/'' \<Longrightarrow> \<not> startswith b ''/'' \<Longrightarrow> join p a = join p b \<Longrightarrow> a = b"
  by (simp add: join_def split: if_splits)

lemma candidates_nonempty:
  assumes "f1 \<in> set (eligible w)" "f2 \<in> set (eligible w)" "f1 \<noteq> f2"
      and "marker w \<noteq> Some Undecodable"
  shows "candidates w \<noteq> []"
proof (cases "marker w")
  case None
  with assms(1) show ?thesis by (auto simp: candidates_def)
next
  case (Some content)
  with assms(4) obtain s where s: "content = Text s" by (cases content) auto
  let ?last = "py_strip (universal_newlines s)"
  have "f1 \<noteq> ?last \<or> f2 \<noteq> ?last" using assms(3) by auto
  then have "f1 \<in> set (candidates w) \<or> f2 \<in> set (candidates w)"
    using assms(1,2) Some s by (auto simp: candidates_def read_text_def)
  then show ?thesis by auto
qed

lemma eligible_marker_update [simp]: "eligible (w\<lparr>marker := m\<rparr>) = eligible w"
  by (simp add: eligible_def)

lemma never_twice_when_read_back:
  assumes two: "f1 \<in> set (eligible w)" "f2 \<in> set (eligible w)" "f1 \<noteq> f2"
      and decodable: "marker w \<noteq> Some Undecodable"
      and roundtrip: "\<forall>f \<in> set (dir_entries w). read_back f = f"
      and names: "\<forall>f \<in> set (dir_entries w). \<not> startswith f ''/''"
  shows "\<exists>c1 c2. pick_random_video (VideoGenerator_init p b) w r1 =
             (Inr (join p c1), w\<lparr>marker := Some (Text c1)\<rparr>) \<and>
           pick_random_video (VideoGenerator_init p b) (w\<lparr>marker := Some (Text c1)\<rparr>) r2 =
             (Inr (join p c2), w\<lparr>marker := Some (Text c2)\<rparr>) \<and>
           c1 \<noteq> c2 \<and> join p c1 \<noteq> join p c2"
proof -
  define c1 where "c1 = candidates w ! (r1 mod length (candidates w))"
  define w1 where "w1 = w\<lparr>marker := Some (Text c1)\<rparr>"
  define c2 where "c2 = candidates w1 ! (r2 mod length (candidates w1))"
  have e: "eligible w \<noteq> []" using two(1) by auto
  have n1: "candidates w \<noteq> []" using two decodable by (rule candidates_nonempty)
  then have "c1 \<in> set (candidates w)" by (simp add: c1_def)
  then have c1_el: "c1 \<in> set (eligible w)" using candidates_subset by blast
  then have c1_dir: "c1 \<in> set (dir_entries w)" using eligible_subset by blast
  have first: "pick_random_video (VideoGenerator_init p b) w r1 = (Inr (join p c1), w1)"
    using e n1 decodable by (simp add: pick_random_video_eq c1_def w1_def)
  have "read_back c1 = c1" using roundtrip c1_dir by simp
  then have cand1: "candidates w1 = filter (\<lambda>vid. vid \<noteq> c1) (eligible w)"
    by (simp add: candidates_def read_text_def read_back_def w1_def)
  have "f1 \<in> set (eligible w1)" "f2 \<in> set (eligible w1)" using two by (simp_all add: w1_def)
  moreover have "marker w1 \<noteq> Some Undecodable" by (simp add: w1_def)
  ultimately have n2: "candidates w1 \<noteq> []" using two(3) candidates_nonempty by blast
  then have "c2 \<in> set (candidates w1)" by (simp add: c2_def)
  then have c2_ne: "c2 \<noteq> c1" and c2_el: "c2 \<in> set (eligible w)" by (simp_all add: cand1)
  have c2_dir: "c2 \<in> set (dir_entries w)" using c2_el eligible_subset by blast
  have second: "pick_random_video (VideoGenerator_init p b) w1 r2 =
      (Inr (join p c2), w\<lparr>marker := Some (Text c2)\<rparr>)"
    using e n2 by (simp add: pick_random_video_eq c2_def w1_def)
  have "join p c1 \<noteq> join p c2"
    using join_inj [of c1 c2 p] names c1_dir c2_dir c2_ne by auto
  with first second c2_ne show ?thesis unfolding w1_def by blast
qed

lemma never_twice_when_read_back_example:
  "(let w = \<lparr>dir_entries = [''a.mp4'', ''notes.txt'', ''b.mp4''], marker = Some (Text ''b.mp4''),
              video_duration = (\<lambda>p. 100), written = []\<rparr>;
        self = VideoGenerator_init ''videos'' 0.8
    in ''a.mp4'' \<in> set (eligible w) \<and> ''b.mp4'' \<in> set (eligible w) \<and> ''a.mp4'' \<noteq> ''b.mp4'' \<and>
       list_all (\<lambda>f. read_back f = f) (dir_entries w) \<and>
       list_all (\<lambda>f. \<not> startswith f ''/'') (dir_entries w) \<and>
       fst (pick_random_video self w 7) = Inr ''videos/a.mp4'' \<and>
       fst (pick_random_video self (snd (pick_random_video self w 7)) 7) = Inr ''videos/b.mp4'')"
proof -
  let ?w = "\<lparr>dir_entries = [''a.mp4'', ''notes.txt'', ''b.mp4''], marker = Some (Text ''b.mp4''),
              video_duration = (\<lambda>p. 100::real), written = []\<rparr>"
  have h1: "''a.mp4'' \<in> set (eligible ?w)" by (simp add: eligible_def endswith_def)
  have h2: "''b.mp4'' \<in> set (eligible ?w)" by (simp add: eligible_def endswith_def)
  have h3: "''a.mp4'' \<noteq> ''b.mp4''" by simp
  have h4: "marker ?w \<noteq> Some Undecodable" by simp
  have h5: "\<forall>f \<in> set (dir_entries ?w). read_back f = f"
    by (simp add: read_back_def py_strip_def isspace_def)
  have h6: "\<forall>f \<in> set (dir_entries ?w). \<not> startswith f ''/''" by (simp add: startswith_def)
  show ?thesis
    using h1 h2 h5 h6 never_twice_when_read_back [OF h1 h2 h3 h4 h5 h6, of "''videos''" "0.8" 7 7]
    by (simp add: Let_def pick_random_video_eq candidates_def eligible_def read_text_def
          read_back_def endswith_def py_strip_def isspace_def join_def startswith_def)
qed

section \<open>Properties of the crop window\<close>

lemma steps_pos_iff: "1 \<le> T \<Longrightarrow> ((W + T - 1) div T \<le> 0) = (W \<le> (0::int))"
  using pos_imp_zdiv_pos_iff [of T "W + T - 1"] by auto

lemma step_below:
  assumes "1 \<le> (T::int)" "j < (W + T - 1) div T"
  shows "T * j + T < W + T"
proof -
  let ?x = "W + T - 1"
  have eq: "T * (?x div T) + ?x mod T = ?x" by simp
  have m: "0 \<le> ?x mod T" using assms(1) by simp
  have "j + 1 \<le> ?x div T" using assms(2) by simp
  then have "T * (j + 1) \<le> T * (?x div T)" using assms(1) by (intro mult_left_mono) simp_all
  then have "T * j + T \<le> T * (?x div T)" by (simp add: distrib_left)
  with eq m show ?thesis by linarith
qed

lemma step_reach:
  assumes "1 \<le> (T::int)" "T * k < W"
  shows "k < (W + T - 1) div T"
proof (rule ccontr)
  let ?x = "W + T - 1"
  assume "\<not> k < ?x div T"
  then have "?x div T \<le> k" by simp
  then have le: "T * (?x div T) \<le> T * k" using assms(1) by (intro mult_left_mono) simp_all
  have eq: "T * (?x div T) + ?x mod T = ?x" by simp
  have m: "?x mod T < T" using assms(1) by simp
  from le eq m assms(2) show False by linarith
qed

lemma neg_step: "T < 0 \<Longrightarrow> 0 \<le> (d::int) \<Longrightarrow> (d - T + T + 1) div T < 0"
  using neg_imp_zdiv_neg_iff [of T "d + 1"] by simp

lemma py_int_le: "0 \<le> x \<Longrightarrow> 0 \<le> py_int x \<and> real_of_int (py_int x) \<le> x"
  by (simp add: py_int_def)

text \<open>\<^verbatim>\<open>randrange\<close> from 0 with a positive step, and with a step that is not positive.\<close>

lemma randrange_pos_step:
  assumes "1 \<le> T"
  shows "randrange 0 W T r =
     (if W \<le> 0 then Inl ValueError else Inr (T * int (r mod nat ((W + T - 1) div T))))"
proof (cases "T = 1")
  case True
  then show ?thesis by (simp add: randrange_def randbelow_def)
next
  case False
  with assms have "T \<noteq> 0" "0 < T" by simp_all
  then show ?thesis
    using False steps_pos_iff [OF assms, of W]
    by (simp add: randrange_def randbelow_def Let_def)
qed

lemma randrange_nonpos_step:
  assumes "T \<le> 0" "0 \<le> d"
  shows "randrange 0 (d - T) T r = Inl ValueError"
proof (cases "T = 0")
  case True
  then show ?thesis by (simp add: randrange_def)
next
  case False
  with assms have "T < 0" by simp
  then show ?thesis using neg_step [OF \<open>T < 0\<close> assms(2)]
    by (simp add: randrange_def Let_def)
qed


lemma crop_pos_step:
  assumes "1 \<le> T"
  shows "crop_video_to_tiktok_format w path T r =
     (if py_int (video_duration w path) - T \<le> 0 then Inl ValueError
      else (let s = T * int (r mod nat ((py_int (video_duration w path) - 1) div T))
            in Inr \<lparr>bg_source = path, bg_window = (real_of_int s, real_of_int (s + T)),
                    overlays = [], duration = real_of_int T\<rparr>))"
  by (simp add: crop_video_to_tiktok_format_def randrange_pos_step [OF assms] Let_def)

lemma crop_nonpos_step:
  assumes "T \<le> 0" "0 \<le> video_duration w path"
  shows "crop_video_to_tiktok_format w path T r = Inl ValueError"
  using randrange_nonpos_step [OF assms(1), of "py_int (video_duration w path)" r] assms(2)
  by (simp add: crop_video_to_tiktok_format_def py_int_def)

text \<open>
  Claim C5, as stated, fails twice. A target below the source's duration does not always
  get a window: for a source of 10.5 seconds and a target of 10 the range
  \<^verbatim>\<open>range(0, int(10.5) - 10, 10)\<close> is empty and \<^verbatim>\<open>randrange\<close> raises. And the start
  is not any whole second of \<open>[0, D - T]\<close>: the step of the range is the target itself,
  so for a source of 100 seconds and a target of 30 the start 1 is never drawn.
\<close>

theorem window_not_every_second:
  "(10::real) < 10.5 \<and>
   (\<forall>r. crop_video_to_tiktok_format
          \<lparr>dir_entries = [''bg.mp4''], marker = None, video_duration = (\<lambda>p. 10.5), written = []\<rparr>
          ''videos/bg.mp4'' 10 r = Inl ValueError) \<and>
   (0::real) \<le> 1 \<and> (1::real) \<le> 100 - 30 \<and>
   (\<forall>r. map_sum id (\<lambda>v. fst (bg_window v))
          (crop_video_to_tiktok_format
             \<lparr>dir_entries = [''bg.mp4''], marker = None, video_duration = (\<lambda>p. 100), written = []\<rparr>
             ''videos/bg.mp4'' 30 r) \<noteq> Inr 1)"
proof -
  have short: "\<forall>r. crop_video_to_tiktok_format
          \<lparr>dir_entries = [''bg.mp4''], marker = None, video_duration = (\<lambda>p. 10.5), written = []\<rparr>
          ''videos/bg.mp4'' 10 r = Inl ValueError"
    by (simp add: crop_pos_step py_int_def)
  have "\<And>j::int. real_of_int (30 * j) \<noteq> 1"
  proof
    fix j :: int
    assume "real_of_int (30 * j) = 1"
    then have "real_of_int (30 * j) = real_of_int 1" by simp
    then have "30 * j = 1" by (simp only: of_int_eq_iff)
    then show False by presburger
  qed
  then have aligned: "\<forall>r. map_sum id (\<lambda>v. fst (bg_window v))
          (crop_video_to_tiktok_format
             \<lparr>dir_entries = [''bg.mp4''], marker = None, video_duration = (\<lambda>p. 100), written = []\<rparr>
             ''videos/bg.mp4'' 30 r) \<noteq> Inr 1"
    by (simp add: crop_pos_step py_int_def Let_def del: of_int_mult)
  from short aligned show ?thesis by simp
qed

text \<open>
  Claim C5, amended. For a source of duration \<open>D \<ge> 0\<close> and a target \<open>T\<close>: the
  computation returns exactly when \<open>1 \<le> T < int(D)\<close> and raises \<^verbatim>\<open>ValueError\<close>
  otherwise, in particular whenever \<open>T \<ge> D\<close>; a returned window starts at a multiple
  \<open>T * k\<close> of the target, \<open>k \<ge> 0\<close>, with \<open>T * k + T < int(D)\<close>, so that
  \<open>0 \<le> start\<close> and \<open>end = start + T \<le> D\<close>, and the clip is \<open>T\<close> long; and every such
  multiple is the start for some draw of the random source. (How likely each start is, is
  not part of the model.)
\<close>

theorem crop_window:
  assumes nonneg: "0 \<le> video_duration w path"
  shows "((\<exists>v. crop_video_to_tiktok_format w path T r = Inr v) =
            (1 \<le> T \<and> T < py_int (video_duration w path))) \<and>
         ((crop_video_to_tiktok_format w path T r = Inl ValueError) =
            (\<not> (1 \<le> T \<and> T < py_int (video_duration w path)))) \<and>
         (video_duration w path \<le> real_of_int T \<longrightarrow>
            crop_video_to_tiktok_format w path T r = Inl ValueError) \<and>
         (crop_video_to_tiktok_format w path T r = Inr v \<longrightarrow>
            (\<exists>k. 0 \<le> k \<and> T * k + T < py_int (video_duration w path) \<and>
                 bg_window v = (real_of_int (T * k), real_of_int (T * k) + real_of_int T)) \<and>
            0 \<le> fst (bg_window v) \<and>
            snd (bg_window v) = fst (bg_window v) + real_of_int T \<and>
            snd (bg_window v) \<le> video_duration w path \<and>
            duration v = real_of_int T) \<and>
         (1 \<le> T \<and> 0 \<le> k \<and> T * k + T < py_int (video_duration w path) \<longrightarrow>
            (\<exists>r'. crop_video_to_tiktok_format w path T r' =
               Inr \<lparr>bg_source = path,
                    bg_window = (real_of_int (T * k), real_of_int (T * k) + real_of_int T),
                    overlays = [], duration = real_of_int T\<rparr>))"
proof -
  let ?D = "video_duration w path"
  let ?n = "(py_int ?D - 1) div T"
  have D: "0 \<le> py_int ?D" "real_of_int (py_int ?D) \<le> ?D"
    using py_int_le [OF nonneg] by simp_all
  have succeeds: "(\<exists>v. crop_video_to_tiktok_format w path T r = Inr v) =
      (1 \<le> T \<and> T < py_int ?D)"
  proof (cases "1 \<le> T")
    case True
    then show ?thesis by (simp add: crop_pos_step Let_def)
  next
    case False
    then show ?thesis using crop_nonpos_step [of T w path r] nonneg by simp
  qed
  have fails: "(crop_video_to_tiktok_format w path T r = Inl ValueError) =
      (\<not> (1 \<le> T \<and> T < py_int ?D))"
  proof (cases "1 \<le> T")
    case True
    then show ?thesis by (simp add: crop_pos_step Let_def)
  next
    case False
    then show ?thesis using crop_nonpos_step [of T w path r] nonneg by simp
  qed
  have too_short: "?D \<le> real_of_int T \<longrightarrow> crop_video_to_tiktok_format w path T r = Inl ValueError"
  proof
    assume "?D \<le> real_of_int T"
    with D(2) have "real_of_int (py_int ?D) \<le> real_of_int T" by linarith
    then have "py_int ?D \<le> T" by simp
    then show "crop_video_to_tiktok_format w path T r = Inl ValueError"
      using fails by simp
  qed
  have sound: "crop_video_to_tiktok_format w path T r = Inr v \<longrightarrow>
      (\<exists>k. 0 \<le> k \<and> T * k + T < py_int ?D \<and>
           bg_window v = (real_of_int (T * k), real_of_int (T * k) + real_of_int T)) \<and>
      0 \<le> fst (bg_window v) \<and>
      snd (bg_window v) = fst (bg_window v) + real_of_int T \<and>
      snd (bg_window v) \<le> ?D \<and>
      duration v = real_of_int T"
  proof
    assume ret: "crop_video_to_tiktok_format w path T r = Inr v"
    then have T: "1 \<le> T" "T < py_int ?D" using succeeds by auto
    define j where "j = int (r mod nat ?n)"
    have n_pos: "0 < ?n" using steps_pos_iff [OF T(1), of "py_int ?D - T"] T(2) by simp
    then have "r mod nat ?n < nat ?n" by simp
    then have "j < ?n" unfolding j_def by (simp only: zless_nat_eq_int_zless)
    then have below: "T * j + T < py_int ?D"
      using step_below [OF T(1), of j "py_int ?D - T"] by simp
    have j0: "0 \<le> j" by (simp add: j_def)
    have v: "v = \<lparr>bg_source = path, bg_window = (real_of_int (T * j), real_of_int (T * j + T)),
                  overlays = [], duration = real_of_int T\<rparr>"
      using ret T by (simp add: crop_pos_step Let_def j_def)
    have start0: "0 \<le> real_of_int (T * j)" using T(1) j0 by simp
    have "real_of_int (T * j + T) \<le> real_of_int (py_int ?D)" using below by linarith
    then have end_le: "real_of_int (T * j) + real_of_int T \<le> ?D" using D(2) by simp
    show "(\<exists>k. 0 \<le> k \<and> T * k + T < py_int ?D \<and>
           bg_window v = (real_of_int (T * k), real_of_int (T * k) + real_of_int T)) \<and>
      0 \<le> fst (bg_window v) \<and>
      snd (bg_window v) = fst (bg_window v) + real_of_int T \<and>
      snd (bg_window v) \<le> ?D \<and>
      duration v = real_of_int T"
      using j0 below start0 end_le by (auto simp: v intro!: exI [of _ j])
  qed
  have complete: "1 \<le> T \<and> 0 \<le> k \<and> T * k + T < py_int ?D \<longrightarrow>
      (\<exists>r'. crop_video_to_tiktok_format w path T r' =
         Inr \<lparr>bg_source = path,
              bg_window = (real_of_int (T * k), real_of_int (T * k) + real_of_int T),
              overlays = [], duration = real_of_int T\<rparr>)"
  proof
    assume a: "1 \<le> T \<and> 0 \<le> k \<and> T * k + T < py_int ?D"
    then have "k < ?n" using step_reach [of T k "py_int ?D - T"] by simp
    then have idx: "int (nat k mod nat ?n) = k" using a by (simp add: nat_mod_distrib)
    have "0 \<le> T * k" using a by simp
    then have "T < py_int ?D" using a by linarith
    with idx have "crop_video_to_tiktok_format w path T (nat k) =
        Inr \<lparr>bg_source = path,
             bg_window = (real_of_int (T * k), real_of_int (T * k) + real_of_int T),
             overlays = [], duration = real_of_int T\<rparr>"
      using a by (simp add: crop_pos_step Let_def)
    then show "\<exists>r'. crop_video_to_tiktok_format w path T r' =
         Inr \<lparr>bg_source = path,
              bg_window = (real_of_int (T * k), real_of_int (T * k) + real_of_int T),
              overlays = [], duration = real_of_int T\<rparr>" ..
  qed
  from succeeds fails too_short sound complete show ?thesis by (intro conjI)
qed


theorem crop_window_witness:
  "(0::real) \<le> 100 \<and>
   crop_video_to_tiktok_format
     \<lparr>dir_entries = [''bg.mp4''], marker = None, video_duration = (\<lambda>p. 100), written = []\<rparr>
     ''videos/bg.mp4'' 30 1 =
     Inr \<lparr>bg_source = ''videos/bg.mp4'', bg_window = (30, 60), overlays = [], duration = 30\<rparr> \<and>
   (1::int) \<le> 30 \<and> (0::int) \<le> 2 \<and> 30 * 2 + 30 < py_int 100 \<and>
   (\<exists>r'. crop_video_to_tiktok_format
     \<lparr>dir_entries = [''bg.mp4''], marker = None, video_duration = (\<lambda>p. 100), written = []\<rparr>
     ''videos/bg.mp4'' 30 r' =
     Inr \<lparr>bg_source = ''videos/bg.mp4'', bg_window = (60, 90), overlays = [], duration = 30\<rparr>) \<and>
   (0::real) \<le> 20 \<and> (20::real) \<le> real_of_int 30 \<and>
   crop_video_to_tiktok_format
     \<lparr>dir_entries = [''bg.mp4''], marker = None, video_duration = (\<lambda>p. 20), written = []\<rparr>
     ''videos/bg.mp4'' 30 0 = Inl ValueError"
proof -
  let ?w = "\<lparr>dir_entries = [''bg.mp4''], marker = None, video_duration = (\<lambda>p. 100::real), written = []\<rparr>"
  let ?w' = "\<lparr>dir_entries = [''bg.mp4''], marker = None, video_duration = (\<lambda>p. 20::real), written = []\<rparr>"
  have long: "0 \<le> video_duration ?w ''videos/bg.mp4''" by simp
  have short: "0 \<le> video_duration ?w' ''videos/bg.mp4''" by simp
  have ret: "crop_video_to_tiktok_format ?w ''videos/bg.mp4'' 30 1 =
     Inr \<lparr>bg_source = ''videos/bg.mp4'', bg_window = (30, 60), overlays = [], duration = 30\<rparr>"
    by (simp add: crop_video_to_tiktok_format_def randrange_def randbelow_def py_int_def)
  have k: "30 * 2 + 30 < py_int 100" by (simp add: py_int_def)
  show ?thesis
    using ret k
      crop_window [OF long, where T = 30 and r = 1 and k = 2 and
        v = "\<lparr>bg_source = ''videos/bg.mp4'', bg_window = (30, 60), overlays = [], duration = 30\<rparr>"]
      crop_window [OF short, where T = 30 and r = 0]
    by simp
qed

section \<open>Properties of the batch drivers\<close>

lemma VideoGenerator_init_sel [simp]:
  "vid_path (VideoGenerator_init p b) = p"
  "title_buffer (VideoGenerator_init p b) = b"
  "last_used_vid_filename (VideoGenerator_init p b) = ''last_used.txt''"
  by (simp_all add: VideoGenerator_init_def)

lemma pick_random_video_written:
  "pick_random_video g w r = (x, w') \<Longrightarrow> written w' = written w"
  by (auto simp: pick_random_video_def Let_def split: if_splits sum.splits)

text \<open>A call of a pipeline either writes one video, at the end, or writes nothing.\<close>

lemma generate_video_from_qna_submission_written:
  assumes "generate_video_from_qna_submission g w sub folder cc mx rnd = (res, w')"
  shows "case res of
           None \<Rightarrow> \<exists>v. written w' = written w @ [(join folder (make_filename ''qna''), v)]
         | Some e \<Rightarrow> written w' = written w"
proof -
  obtain x w1 where p: "pick_random_video g w (fst rnd) = (x, w1)"
    by (cases "pick_random_video g w (fst rnd)")
  have w1: "written w1 = written w" using p by (rule pick_random_video_written)
  show ?thesis
    using assms w1
    by (auto simp: generate_video_from_qna_submission_def p write_title_to_video_def Let_def
          split: sum.splits option.splits)
qed

lemma generate_video_from_advice_submission_written:
  assumes "generate_video_from_advice_submission g w sub folder cc mx rnd = (res, w')"
  shows "case res of
           None \<Rightarrow> \<exists>v. written w' = written w @ [(join folder (make_filename ''advice''), v)]
         | Some e \<Rightarrow> written w' = written w"
proof -
  obtain x w1 where p: "pick_random_video g w (fst rnd) = (x, w1)"
    by (cases "pick_random_video g w (fst rnd)")
  have w1: "written w1 = written w" using p by (rule pick_random_video_written)
  show ?thesis
    using assms w1
    by (auto simp: generate_video_from_advice_submission_def p write_title_to_video_def Let_def
          split: sum.splits option.splits)
qed

text \<open>
  The loops: \<open>k\<close> posts are processed to the end, each leaving its video and its line of
  success; the loop then either has run out of posts, or has met an exception with posts
  still left.
\<close>

lemma qna_loop_result:
  "qna_loop a g fn rnd i posts w out = (res, w', out') \<Longrightarrow>
   \<exists>k. map fst (written w') = map fst (written w) @ map (out_path a fn ''qna'') [i ..< i + k] \<and>
       out' = out @ map Success [i + 1 ..< i + 1 + k] \<and>
       (case res of None \<Rightarrow> k = length posts | Some e \<Rightarrow> k < length posts)"
proof (induction posts arbitrary: i w out)
  case Nil
  then show ?case by auto
next
  case (Cons p ps)
  show ?case
  proof (cases p)
    case (Inl e)
    with Cons.prems show ?thesis by (auto intro!: exI [of _ 0])
  next
    case (Inr sub)
    obtain r1 w1 where g: "generate_video_from_qna_submission g w sub
        (join (output_folder a) (fn i)) (char_count a) (max_vid_length a) (rnd i) = (r1, w1)"
      by (cases "generate_video_from_qna_submission g w sub
        (join (output_folder a) (fn i)) (char_count a) (max_vid_length a) (rnd i)")
    note wr = generate_video_from_qna_submission_written [OF g]
    show ?thesis
    proof (cases r1)
      case (Some e)
      with Cons.prems Inr g wr show ?thesis by (auto intro!: exI [of _ 0])
    next
      case None
      with Cons.prems Inr g have
        rest: "qna_loop a g fn rnd (Suc i) ps w1 (out @ [Success (i + 1)]) = (res, w', out')"
        by simp
      from Cons.IH [OF rest] obtain k where
        k: "map fst (written w') = map fst (written w1) @ map (out_path a fn ''qna'') [Suc i ..< Suc i + k]"
           "out' = (out @ [Success (i + 1)]) @ map Success [Suc i + 1 ..< Suc i + 1 + k]"
           "case res of None \<Rightarrow> k = length ps | Some e \<Rightarrow> k < length ps"
        by blast
      from wr None have w1: "map fst (written w1) = map fst (written w) @ [out_path a fn ''qna'' i]"
        by (auto simp: out_path_def)
      have idx: "[i ..< i + Suc k] = i # [Suc i ..< Suc i + k]"
        by (simp add: upt_conv_Cons)
      have idx': "[i + 1 ..< i + 1 + Suc k] = (i + 1) # [Suc i + 1 ..< Suc i + 1 + k]"
        by (simp add: upt_conv_Cons)
      show ?thesis
        apply (rule exI [of _ "Suc k"])
        using k w1 unfolding idx idx' by (auto split: option.splits)
    qed
  qed
qed

lemma advice_loop_result:
  "advice_loop a g fn rnd i posts w out = (res, w', out') \<Longrightarrow>
   \<exists>k. map fst (written w') = map fst (written w) @ map (out_path a fn ''advice'') [i ..< i + k] \<and>
       out' = out @ map Success [i + 1 ..< i + 1 + k] \<and>
       (case res of None \<Rightarrow> k = length posts | Some e \<Rightarrow> k < length posts)"
proof (induction posts arbitrary: i w out)
  case Nil
  then show ?case by auto
next
  case (Cons p ps)
  show ?case
  proof (cases p)
    case (Inl e)
    with Cons.prems show ?thesis by (auto intro!: exI [of _ 0])
  next
    case (Inr sub)
    obtain r1 w1 where g: "generate_video_from_advice_submission g w sub
        (join (output_folder a) (fn i)) (char_count a) (max_vid_length a) (rnd i) = (r1, w1)"
      by (cases "generate_video_from_advice_submission g w sub
        (join (output_folder a) (fn i)) (char_count a) (max_vid_length a) (rnd i)")
    note wr = generate_video_from_advice_submission_written [OF g]
    show ?thesis
    proof (cases r1)
      case (Some e)
      with Cons.prems Inr g wr show ?thesis by (auto intro!: exI [of _ 0])
    next
      case None
      with Cons.prems Inr g have
        rest: "advice_loop a g fn rnd (Suc i) ps w1 (out @ [Success (i + 1)]) = (res, w', out')"
        by simp
      from Cons.IH [OF rest] obtain k where
        k: "map fst (written w') = map fst (written w1) @ map (out_path a fn ''advice'') [Suc i ..< Suc i + k]"
           "out' = (out @ [Success (i + 1)]) @ map Success [Suc i + 1 ..< Suc i + 1 + k]"
           "case res of None \<Rightarrow> k = length ps | Some e \<Rightarrow> k < length ps"
        by blast
      from wr None have w1: "map fst (written w1) = map fst (written w) @ [out_path a fn ''advice'' i]"
        by (auto simp: out_path_def)
      have idx: "[i ..< i + Suc k] = i # [Suc i ..< Suc i + k]"
        by (simp add: upt_conv_Cons)
      have idx': "[i + 1 ..< i + 1 + Suc k] = (i + 1) # [Suc i + 1 ..< Suc i + 1 + k]"
        by (simp add: upt_conv_Cons)
      show ?thesis
        apply (rule exI [of _ "Suc k"])
        using k w1 unfolding idx idx' by (auto split: option.splits)
    qed
  qed
qed



text \<open>
  The shape of every run, for either pipeline: some number \<open>k\<close> of posts is written,
  each with its line of success; then either the batch is finished (\<open>k\<close> is its length
  and nothing more is printed), or one report of an exception is the last line.
\<close>

lemma batch_result_shape:
  "(case generate_qna_tiktok_video a fn rnd (Inr posts) w of
      (w', lines) \<Rightarrow>
        \<exists>k. map fst (written w') = map fst (written w) @ map (out_path a fn ''qna'') [0 ..< k] \<and>
            (k = length posts \<and> lines = map Success [1 ..< 1 + k] \<or>
             k < length posts \<and> (\<exists>e. lines = map Success [1 ..< 1 + k] @ [ExceptionReport e]))) \<and>
   (case generate_advice_tiktok_video a fn rnd (Inr posts) w of
      (w', lines) \<Rightarrow>
        \<exists>k. map fst (written w') = map fst (written w) @ map (out_path a fn ''advice'') [0 ..< k] \<and>
            (k = length posts \<and> lines = map Success [1 ..< 1 + k] \<or>
             k < length posts \<and> (\<exists>e. lines = map Success [1 ..< 1 + k] @ [ExceptionReport e])))"
proof
  let ?g = "VideoGenerator_init (background_folder a) 0.8"
  obtain res w' out where l: "qna_loop a ?g fn rnd 0 posts w [] = (res, w', out)"
    by (cases "qna_loop a ?g fn rnd 0 posts w []")
  from qna_loop_result [OF l] obtain k where
    k: "map fst (written w') = map fst (written w) @ map (out_path a fn ''qna'') [0 ..< k]"
       "out = map Success [1 ..< 1 + k]"
       "case res of None \<Rightarrow> k = length posts | Some e \<Rightarrow> k < length posts"
    by auto
  show "case generate_qna_tiktok_video a fn rnd (Inr posts) w of
      (w', lines) \<Rightarrow>
        \<exists>k. map fst (written w') = map fst (written w) @ map (out_path a fn ''qna'') [0 ..< k] \<and>
            (k = length posts \<and> lines = map Success [1 ..< 1 + k] \<or>
             k < length posts \<and> (\<exists>e. lines = map Success [1 ..< 1 + k] @ [ExceptionReport e]))"
  proof (cases res)
    case None
    have run: "generate_qna_tiktok_video a fn rnd (Inr posts) w = (w', out)"
      using l None by (simp add: generate_qna_tiktok_video_def Let_def)
    from k None have "k = length posts" by simp
    with k(1,2) show ?thesis unfolding run prod.case by blast
  next
    case (Some e)
    have run: "generate_qna_tiktok_video a fn rnd (Inr posts) w = (w', out @ [ExceptionReport e])"
      using l Some by (simp add: generate_qna_tiktok_video_def Let_def)
    from k Some have "k < length posts" by simp
    with k(1,2) show ?thesis unfolding run prod.case by blast
  qed
next
  let ?g = "VideoGenerator_init (background_folder a) 0.8"
  obtain res w' out where l: "advice_loop a ?g fn rnd 0 posts w [] = (res, w', out)"
    by (cases "advice_loop a ?g fn rnd 0 posts w []")
  from advice_loop_result [OF l] obtain k where
    k: "map fst (written w') = map fst (written w) @ map (out_path a fn ''advice'') [0 ..< k]"
       "out = map Success [1 ..< 1 + k]"
       "case res of None \<Rightarrow> k = length posts | Some e \<Rightarrow> k < length posts"
    by auto
  show "case generate_advice_tiktok_video a fn rnd (Inr posts) w of
      (w', lines) \<Rightarrow>
        \<exists>k. map fst (written w') = map fst (written w) @ map (out_path a fn ''advice'') [0 ..< k] \<and>
            (k = length posts \<and> lines = map Success [1 ..< 1 + k] \<or>
             k < length posts \<and> (\<exists>e. lines = map Success [1 ..< 1 + k] @ [ExceptionReport e]))"
  proof (cases res)
    case None
    have run: "generate_advice_tiktok_video a fn rnd (Inr posts) w = (w', out)"
      using l None by (simp add: generate_advice_tiktok_video_def Let_def)
    from k None have "k = length posts" by simp
    with k(1,2) show ?thesis unfolding run prod.case by blast
  next
    case (Some e)
    have run: "generate_advice_tiktok_video a fn rnd (Inr posts) w = (w', out @ [ExceptionReport e])"
      using l Some by (simp add: generate_advice_tiktok_video_def Let_def)
    from k Some have "k < length posts" by simp
    with k(1,2) show ?thesis unfolding run prod.case by blast
  qed
qed























end
